theory Spec2Isabelle
  imports Main
begin

section \<open>Tunnel configuration parsing (client/go/outline/parse.go)\<close>

text \<open>
  The development embeds \<^verbatim>\<open>doParseTunnelConfig\<close> of \<^verbatim>\<open>parse.go\<close>.
  Go strings are byte strings, modelled as \<^typ>\<open>string\<close> (one \<^typ>\<open>char\<close> per byte).
  A Go call returning a value together with an \<^verbatim>\<open>error\<close> is a sum: \<open>Inl\<close>
  carries the text of the error (what \<^verbatim>\<open>%s\<close> prints), \<open>Inr\<close> the value.
\<close>

subsection \<open>String helpers of the Go standard library\<close>

text \<open>\<^verbatim>\<open>strings.HasPrefix(s, prefix)\<close>: \<^verbatim>\<open>len(s) >= len(prefix) && s[:len(prefix)] == prefix\<close>.\<close>

definition HasPrefix :: "string \<Rightarrow> string \<Rightarrow> bool" where
  "HasPrefix s p \<longleftrightarrow> length p \<le> length s \<and> take (length p) s = p"

definition HasSuffix :: "string \<Rightarrow> string \<Rightarrow> bool" where
  "HasSuffix s p \<longleftrightarrow> length p \<le> length s \<and> drop (length s - length p) s = p"

text \<open>
  The UTF-8 encodings of the runes for which \<^verbatim>\<open>unicode.IsSpace\<close> holds: tab, line
  feed, vertical tab, form feed, carriage return, space, U+0085, U+00A0, U+1680,
  U+2000 to U+200A, U+2028, U+2029, U+202F, U+205F and U+3000.
\<close>

definition spaceRunes :: "string list" where
  "spaceRunes =
    [[CHR 0x09], [CHR 0x0A], [CHR 0x0B], [CHR 0x0C], [CHR 0x0D], [CHR 0x20],
     [CHR 0xC2, CHR 0x85], [CHR 0xC2, CHR 0xA0],
     [CHR 0xE1, CHR 0x9A, CHR 0x80],
     [CHR 0xE2, CHR 0x80, CHR 0x80], [CHR 0xE2, CHR 0x80, CHR 0x81],
     [CHR 0xE2, CHR 0x80, CHR 0x82], [CHR 0xE2, CHR 0x80, CHR 0x83],
     [CHR 0xE2, CHR 0x80, CHR 0x84], [CHR 0xE2, CHR 0x80, CHR 0x85],
     [CHR 0xE2, CHR 0x80, CHR 0x86], [CHR 0xE2, CHR 0x80, CHR 0x87],
     [CHR 0xE2, CHR 0x80, CHR 0x88], [CHR 0xE2, CHR 0x80, CHR 0x89],
     [CHR 0xE2, CHR 0x80, CHR 0x8A],
     [CHR 0xE2, CHR 0x80, CHR 0xA8], [CHR 0xE2, CHR 0x80, CHR 0xA9],
     [CHR 0xE2, CHR 0x80, CHR 0xAF], [CHR 0xE2, CHR 0x81, CHR 0x9F],
     [CHR 0xE3, CHR 0x80, CHR 0x80]]"

text \<open>Leading white space is removed rune by rune, while the text starts with one.\<close>

function TrimLeftSpace :: "string \<Rightarrow> string" where
  "TrimLeftSpace s =
     (case find (HasPrefix s) spaceRunes of
        None \<Rightarrow> s
      | Some w \<Rightarrow> TrimLeftSpace (drop (length w) s))"
  by pat_completeness auto
termination
proof (relation "measure length")
  show "wf (measure length)" by simp
next
  fix s :: string and w
  assume found: "find (HasPrefix s) spaceRunes = Some w"
  have "w \<in> set spaceRunes \<and> HasPrefix s w"
    using found unfolding find_Some_iff by auto
  then have "w \<noteq> []" and "length w \<le> length s"
    by (auto simp: HasPrefix_def spaceRunes_def)
  then have "length (drop (length w) s) < length s"
    by (cases w) auto
  then show "(drop (length w) s, s) \<in> measure length" by simp
qed

text \<open>Trailing white space likewise, while the text ends with a white-space rune.\<close>

function TrimRightSpace :: "string \<Rightarrow> string" where
  "TrimRightSpace s =
     (case find (HasSuffix s) spaceRunes of
        None \<Rightarrow> s
      | Some w \<Rightarrow> TrimRightSpace (take (length s - length w) s))"
  by pat_completeness auto
termination
proof (relation "measure length")
  show "wf (measure length)" by simp
next
  fix s :: string and w
  assume found: "find (HasSuffix s) spaceRunes = Some w"
  have "w \<in> set spaceRunes \<and> HasSuffix s w"
    using found unfolding find_Some_iff by auto
  then have "w \<noteq> []" and "length w \<le> length s"
    by (auto simp: HasSuffix_def spaceRunes_def)
  then have "length (take (length s - length w) s) < length s"
    by (cases w) auto
  then show "(take (length s - length w) s, s) \<in> measure length" by simp
qed

text \<open>
  \<^verbatim>\<open>strings.TrimSpace\<close>: all leading and trailing white space removed, as defined by
  Unicode. A byte that is not part of a well-formed encoding of such a rune stops the
  trimming, as the rune decoder reports it as the replacement character.
\<close>

definition TrimSpace :: "string \<Rightarrow> string" where
  "TrimSpace s = TrimRightSpace (TrimLeftSpace s)"

subsection \<open>Data model\<close>

text \<open>
  Modelled from the spec: the error codes of package \<^verbatim>\<open>platerrors\<close>, whose declaration
  is not part of \<^verbatim>\<open>parse.go\<close>. The three codes this function produces are distinct
  constants; any other code a collaborator reports is carried by \<open>OtherCode\<close>.
\<close>

datatype ErrorCode = InternalError | InvalidConfig | ProviderError | OtherCode string

text \<open>Go's \<^verbatim>\<open>any\<close> as stored in an error's details: a string, or some other value.\<close>

datatype 'x any = AnyString string | AnyOther 'x

text \<open>
  Modelled from the spec: \<^verbatim>\<open>platerrors.PlatformError\<close>, a code, a message and an optional
  mapping from string to arbitrary value (\<open>None\<close> is the nil map).
\<close>

record 'x PlatformError =
  Code :: ErrorCode
  Message :: string
  Details :: "(string \<rightharpoonup> 'x any) option"

text \<open>The anonymous struct behind the \<^verbatim>\<open>Error\<close> pointer of \<^verbatim>\<open>parseTunnelConfigRequest\<close>.\<close>

record requestError =
  Message :: string
  Details :: string

text \<open>
  \<^verbatim>\<open>parseTunnelConfigRequest\<close>: \<open>Transport\<close> is an \<^verbatim>\<open>ast.Node\<close> (an interface, \<open>None\<close>
  when nil), \<open>Error\<close> a pointer (\<open>None\<close> when nil). The type \<open>'n\<close> stands for the nodes of
  the YAML syntax tree.
\<close>

record 'n parseTunnelConfigRequest =
  Transport :: "'n option"
  Error :: "requestError option"

record tunnelConfigJson =
  FirstHop :: string
  Transport :: string

text \<open>
  Modelled from the spec: the client handle built by the transport-construction
  collaborator, exposing the first hop of its stream dialer \<^verbatim>\<open>sd\<close> and of its packet
  listener \<^verbatim>\<open>pl\<close> as \<^verbatim>\<open>ConnectionProviderInfo.FirstHop\<close>.
\<close>

record ConnectionProviderInfo =
  FirstHop :: string

record endpoint =
  ConnectionProviderInfo :: ConnectionProviderInfo

record Client =
  sd :: endpoint
  pl :: endpoint

text \<open>
  Modelled from the spec: \<^verbatim>\<open>InvokeMethodResult\<close>, the outer envelope with a \<^verbatim>\<open>Value\<close>
  string (empty when not set) and an \<^verbatim>\<open>Error\<close> pointer (\<open>None\<close> when nil).
\<close>

record 'x InvokeMethodResult =
  Value :: string
  Error :: "'x PlatformError option"

subsection \<open>Collaborators\<close>

text \<open>
  The functions \<^verbatim>\<open>doParseTunnelConfig\<close> calls outside \<^verbatim>\<open>parse.go\<close> are parameters:
  \<^item> \<open>yaml_Unmarshal_map\<close> is \<^verbatim>\<open>yaml.Unmarshal\<close> into a \<^verbatim>\<open>map[string]any\<close> (values of type \<open>'v\<close>);
  \<^item> \<open>yaml_Unmarshal_request\<close> is \<^verbatim>\<open>yaml.Unmarshal\<close> into a \<^verbatim>\<open>parseTunnelConfigRequest\<close>;
  \<^item> \<open>yaml_Marshal\<close> is \<^verbatim>\<open>yaml.Marshal\<close> of an \<^verbatim>\<open>ast.Node\<close>;
  \<^item> \<open>NewClient\<close> is the transport-construction collaborator. Modelled from the spec: it
    returns either a structured platform error or a constructed client handle;
  \<^item> \<open>json_Marshal\<close> is \<^verbatim>\<open>json.Marshal\<close> of a \<^verbatim>\<open>tunnelConfigJson\<close>.
\<close>

record ('v, 'n, 'x) collaborators =
  yaml_Unmarshal_map :: "string \<Rightarrow> string + (string \<rightharpoonup> 'v)"
  yaml_Unmarshal_request :: "string \<Rightarrow> string + 'n parseTunnelConfigRequest"
  yaml_Marshal :: "'n option \<Rightarrow> string + string"
  NewClient :: "string \<Rightarrow> 'x PlatformError + Client"
  json_Marshal :: "tunnelConfigJson \<Rightarrow> string + string"

text \<open>The calls made to the collaborators are recorded, in order, with their arguments.\<close>

datatype 'n call =
    Call_yaml_Unmarshal_map string
  | Call_yaml_Unmarshal_request string
  | Call_yaml_Marshal "'n option"
  | Call_NewClient string
  | Call_json_Marshal tunnelConfigJson

subsection \<open>The function\<close>

definition hasKey :: "('k \<rightharpoonup> 'v) \<Rightarrow> 'k \<Rightarrow> bool" where
  "hasKey m key \<longleftrightarrow> m key \<noteq> None"

text \<open>
  Lines 54 to 109, on the trimmed input: the calls made, and either the result of an
  early return (\<open>Inl\<close>) or the value assigned to \<^verbatim>\<open>transportConfigText\<close> (\<open>Inr\<close>).
\<close>

definition transportConfigText ::
  "('v, 'n, 'x) collaborators \<Rightarrow> string \<Rightarrow> 'n call list \<times> ('x InvokeMethodResult + string)"
where
  "transportConfigText env input =
    (if HasPrefix input ''ss://'' then ([], Inr input)
     else
       case yaml_Unmarshal_map env input of
         Inl err \<Rightarrow>
           ([Call_yaml_Unmarshal_map input],
            Inl \<lparr>Value = [], Error = Some
              \<lparr>Code = InvalidConfig, PlatformError.Message = ''failed to parse: '' @ err,
               PlatformError.Details = None\<rparr>\<rparr>)
       | Inr yamlValue \<Rightarrow>
           if hasKey yamlValue ''transport'' \<or> hasKey yamlValue ''error'' then
             case yaml_Unmarshal_request env input of
               Inl err \<Rightarrow>
                 ([Call_yaml_Unmarshal_map input, Call_yaml_Unmarshal_request input],
                  Inl \<lparr>Value = [], Error = Some
                    \<lparr>Code = InvalidConfig, PlatformError.Message = ''failed to parse: '' @ err,
                     PlatformError.Details = None\<rparr>\<rparr>)
             | Inr tunnelConfig \<Rightarrow>
                 (case parseTunnelConfigRequest.Error tunnelConfig of
                    Some e \<Rightarrow>
                      (let platErr = \<lparr>Code = ProviderError,
                                      PlatformError.Message = requestError.Message e,
                                      PlatformError.Details = None\<rparr>;
                           platErr' =
                             (if requestError.Details e \<noteq> [] then
                                platErr\<lparr>PlatformError.Details :=
                                  Some [''details'' \<mapsto> AnyString (requestError.Details e)]\<rparr>
                              else platErr)
                       in ([Call_yaml_Unmarshal_map input, Call_yaml_Unmarshal_request input],
                           Inl \<lparr>Value = [], Error = Some platErr'\<rparr>))
                  | None \<Rightarrow>
                      (case yaml_Marshal env (parseTunnelConfigRequest.Transport tunnelConfig) of
                         Inl err \<Rightarrow>
                           ([Call_yaml_Unmarshal_map input, Call_yaml_Unmarshal_request input,
                             Call_yaml_Marshal (parseTunnelConfigRequest.Transport tunnelConfig)],
                            Inl \<lparr>Value = [], Error = Some
                              \<lparr>Code = InvalidConfig,
                               PlatformError.Message = ''failed to normalize config: '' @ err,
                               PlatformError.Details = None\<rparr>\<rparr>)
                       | Inr transportConfigBytes \<Rightarrow>
                           ([Call_yaml_Unmarshal_map input, Call_yaml_Unmarshal_request input,
                             Call_yaml_Marshal (parseTunnelConfigRequest.Transport tunnelConfig)],
                            Inr transportConfigBytes)))
           else ([Call_yaml_Unmarshal_map input], Inr input))"

text \<open>The first hops of a client, as lines 117 and 118 read them.\<close>

definition streamFirstHop :: "Client \<Rightarrow> string" where
  "streamFirstHop client = ConnectionProviderInfo.FirstHop (ConnectionProviderInfo (sd client))"

definition packetFirstHop :: "Client \<Rightarrow> string" where
  "packetFirstHop client = ConnectionProviderInfo.FirstHop (ConnectionProviderInfo (pl client))"

text \<open>Lines 111 to 136: the client is built from the text and the response assembled.\<close>

definition respond ::
  "('v, 'n, 'x) collaborators \<Rightarrow> string \<Rightarrow> 'n call list \<times> 'x InvokeMethodResult"
where
  "respond env text =
    (case NewClient env text of
       Inl e \<Rightarrow> ([Call_NewClient text], \<lparr>Value = [], Error = Some e\<rparr>)
     | Inr client \<Rightarrow>
         (let response = \<lparr>tunnelConfigJson.FirstHop = [], Transport = text\<rparr>;
              response' =
                (if streamFirstHop client = packetFirstHop client
                 then response\<lparr>tunnelConfigJson.FirstHop := streamFirstHop client\<rparr>
                 else response)
          in case json_Marshal env response' of
               Inl err \<Rightarrow>
                 ([Call_NewClient text, Call_json_Marshal response'],
                  \<lparr>Value = [], Error = Some
                    \<lparr>Code = InternalError,
                     PlatformError.Message = ''failed to serialize JSON response: '' @ err,
                     PlatformError.Details = None\<rparr>\<rparr>)
             | Inr responseBytes \<Rightarrow>
                 ([Call_NewClient text, Call_json_Marshal response'],
                  \<lparr>Value = responseBytes, Error = None\<rparr>)))"

definition doParseTunnelConfig ::
  "('v, 'n, 'x) collaborators \<Rightarrow> string \<Rightarrow> 'n call list \<times> 'x InvokeMethodResult"
where
  "doParseTunnelConfig env input =
    (case transportConfigText env (TrimSpace input) of
       (calls, Inl result) \<Rightarrow> (calls, result)
     | (calls, Inr text) \<Rightarrow>
         (case respond env text of (calls', result) \<Rightarrow> (calls @ calls', result)))"

subsection \<open>Reading the recorded calls\<close>

text \<open>The transport config texts handed to the transport-construction collaborator.\<close>

fun passedDownstream :: "'n call list \<Rightarrow> string list" where
  "passedDownstream [] = []"
| "passedDownstream (Call_NewClient text # cs) = text # passedDownstream cs"
| "passedDownstream (c # cs) = passedDownstream cs"

text \<open>The response objects handed to the JSON encoder.\<close>

fun serialized :: "'n call list \<Rightarrow> tunnelConfigJson list" where
  "serialized [] = []"
| "serialized (Call_json_Marshal response # cs) = response # serialized cs"
| "serialized (c # cs) = serialized cs"

text \<open>A call that parses a structured document.\<close>

fun parsesDocument :: "'n call \<Rightarrow> bool" where
  "parsesDocument (Call_yaml_Unmarshal_map s) = True"
| "parsesDocument (Call_yaml_Unmarshal_request s) = True"
| "parsesDocument c = False"

text \<open>A call that re-serializes a syntax tree.\<close>

fun reserializes :: "'n call \<Rightarrow> bool" where
  "reserializes (Call_yaml_Marshal n) = True"
| "reserializes c = False"

text \<open>A call that builds the client.\<close>

fun buildsClient :: "'n call \<Rightarrow> bool" where
  "buildsClient (Call_NewClient text) = True"
| "buildsClient c = False"

subsection \<open>Sample inputs and collaborators\<close>

text \<open>
  The scenarios of the specification, and stand-ins for the collaborators that answer
  on them: the theorems below are instantiated at these concrete inputs.
\<close>

definition urlConfig :: string where
  "urlConfig = ''ss://example-host-info''"

definition flatConfig :: string where
  \<open>flatConfig = ''{"host":"x","port":1}''\<close>

definition providerErrorDocument :: string where
  "providerErrorDocument =
     ''transport:\<newline>  host: x\<newline>error:\<newline>  message: quota exceeded\<newline>  details: daily limit''"

definition bareErrorDocument :: string where
  "bareErrorDocument = ''error:\<newline>  message: quota exceeded''"

definition transportDocument :: string where
  "transportDocument = ''transport:\<newline>  host: x''"

definition indentedTransportDocument :: string where
  "indentedTransportDocument = ''transport:\<newline>    host: x''"

definition malformedDocument :: string where
  "malformedDocument = ''{host: x''"

text \<open>
  A syntax tree node is stood for by the lines of the document it spans, with their
  columns, since an \<^verbatim>\<open>ast.Node\<close> keeps the positions of its tokens and is printed at
  them; a map value is stood for by its content.
\<close>

definition sample_yaml_Unmarshal_map :: "string \<Rightarrow> string + (string \<rightharpoonup> string)" where
  "sample_yaml_Unmarshal_map s =
    (if s = providerErrorDocument then
       Inr [''transport'' \<mapsto> ''host: x'',
            ''error'' \<mapsto> ''message: quota exceeded, details: daily limit'']
     else if s = bareErrorDocument then Inr [''error'' \<mapsto> ''message: quota exceeded'']
     else if s = transportDocument \<or> s = indentedTransportDocument then
       Inr [''transport'' \<mapsto> ''host: x'']
     else if s = flatConfig \<or> s = flatConfig @ ''\<newline>'' then
       Inr [''host'' \<mapsto> ''x'', ''port'' \<mapsto> ''1'']
     else Inl ''[1:1] unexpected end of document'')"

definition sample_yaml_Unmarshal_request ::
  "string \<Rightarrow> string + string parseTunnelConfigRequest"
where
  "sample_yaml_Unmarshal_request s =
    (if s = providerErrorDocument then
       Inr \<lparr>parseTunnelConfigRequest.Transport = Some ''  host: x'',
            Error = Some \<lparr>requestError.Message = ''quota exceeded'',
                          requestError.Details = ''daily limit''\<rparr>\<rparr>
     else if s = bareErrorDocument then
       Inr \<lparr>parseTunnelConfigRequest.Transport = None,
            Error = Some \<lparr>requestError.Message = ''quota exceeded'',
                          requestError.Details = []\<rparr>\<rparr>
     else if s = transportDocument then
       Inr \<lparr>parseTunnelConfigRequest.Transport = Some ''  host: x'', Error = None\<rparr>
     else if s = indentedTransportDocument then
       Inr \<lparr>parseTunnelConfigRequest.Transport = Some ''    host: x'', Error = None\<rparr>
     else Inl ''[1:1] unexpected end of document'')"

definition sample_yaml_Marshal :: "string option \<Rightarrow> string + string" where
  "sample_yaml_Marshal node =
    (case node of
       None \<Rightarrow> Inr ''null\<newline>''
     | Some n \<Rightarrow> Inr (n @ ''\<newline>''))"

definition sampleClient :: "string \<Rightarrow> string \<Rightarrow> Client" where
  "sampleClient stream packet =
    \<lparr>sd = \<lparr>ConnectionProviderInfo = \<lparr>FirstHop = stream\<rparr>\<rparr>,
     pl = \<lparr>ConnectionProviderInfo = \<lparr>FirstHop = packet\<rparr>\<rparr>\<rparr>"

definition sample_NewClient :: "string \<Rightarrow> unit PlatformError + Client" where
  "sample_NewClient text =
    (if HasPrefix text ''ss://'' then Inr (sampleClient ''1.2.3.4:8080'' ''1.2.3.4:8080'')
     else if text = ''  host: x\<newline>'' \<or> text = ''    host: x\<newline>'' then
       Inr (sampleClient ''1.2.3.4:8080'' ''5.6.7.8:53'')
     else Inl \<lparr>Code = OtherCode ''ERR_ILLEGAL_CONFIG'',
               PlatformError.Message = ''unsupported transport'',
               PlatformError.Details = Some [''field'' \<mapsto> AnyOther ()]\<rparr>)"

definition sample_json_Marshal :: "tunnelConfigJson \<Rightarrow> string + string" where
  \<open>sample_json_Marshal response =
    Inr (''{"firstHop":"'' @ tunnelConfigJson.FirstHop response
         @ ''","transport":"'' @ tunnelConfigJson.Transport response @ ''"}'')\<close>

definition sampleCollaborators :: "(string, string, unit) collaborators" where
  "sampleCollaborators =
    \<lparr>yaml_Unmarshal_map = sample_yaml_Unmarshal_map,
     yaml_Unmarshal_request = sample_yaml_Unmarshal_request,
     yaml_Marshal = sample_yaml_Marshal,
     NewClient = sample_NewClient,
     json_Marshal = sample_json_Marshal\<rparr>"

lemmas sample_inputs =
  urlConfig_def flatConfig_def providerErrorDocument_def bareErrorDocument_def
  transportDocument_def indentedTransportDocument_def malformedDocument_def

lemmas sample_collaborators =
  sampleCollaborators_def sample_yaml_Unmarshal_map_def sample_yaml_Unmarshal_request_def
  sample_yaml_Marshal_def sample_NewClient_def sample_json_Marshal_def sampleClient_def

subsection \<open>The paths through the function\<close>

lemma transportConfigText_calls:
  "c \<in> set (fst (transportConfigText env t)) \<Longrightarrow> parsesDocument c \<or> reserializes c"
  by (auto simp: transportConfigText_def Let_def split: if_splits sum.splits option.splits)

lemma respond_calls:
  "fst (respond env text) =
     Call_NewClient text #
       (case NewClient env text of
          Inl e \<Rightarrow> []
        | Inr client \<Rightarrow>
            [Call_json_Marshal
               \<lparr>tunnelConfigJson.FirstHop =
                  (if streamFirstHop client = packetFirstHop client then streamFirstHop client else []),
                Transport = text\<rparr>])"
  by (simp add: respond_def Let_def split: sum.splits)

lemma respond_result:
  "snd (respond env text) =
     (case NewClient env text of
        Inl e \<Rightarrow> \<lparr>Value = [], Error = Some e\<rparr>
      | Inr client \<Rightarrow>
          (case json_Marshal env
                  \<lparr>tunnelConfigJson.FirstHop =
                     (if streamFirstHop client = packetFirstHop client then streamFirstHop client else []),
                   Transport = text\<rparr> of
             Inl err \<Rightarrow>
               \<lparr>Value = [], Error = Some
                 \<lparr>Code = InternalError,
                  PlatformError.Message = ''failed to serialize JSON response: '' @ err,
                  PlatformError.Details = None\<rparr>\<rparr>
           | Inr responseBytes \<Rightarrow> \<lparr>Value = responseBytes, Error = None\<rparr>))"
  by (simp add: respond_def Let_def split: sum.splits)

lemma doParseTunnelConfig_early:
  "transportConfigText env (TrimSpace input) = (calls, Inl result) \<Longrightarrow>
   doParseTunnelConfig env input = (calls, result)"
  by (simp add: doParseTunnelConfig_def)

lemma doParseTunnelConfig_text:
  "transportConfigText env (TrimSpace input) = (calls, Inr text) \<Longrightarrow>
   doParseTunnelConfig env input = (calls @ fst (respond env text), snd (respond env text))"
  by (simp add: doParseTunnelConfig_def split: prod.splits)

lemma passedDownstream_append:
  "passedDownstream (xs @ ys) = passedDownstream xs @ passedDownstream ys"
  by (induction xs rule: passedDownstream.induct) auto

lemma passedDownstream_none:
  "\<forall>c\<in>set cs. \<not> buildsClient c \<Longrightarrow> passedDownstream cs = []"
  by (induction cs rule: passedDownstream.induct) auto

lemma parses_not_builds: "parsesDocument c \<or> reserializes c \<Longrightarrow> \<not> buildsClient c"
  by (cases c) auto

lemma passedDownstream_respond: "passedDownstream (fst (respond env text)) = [text]"
  by (simp add: respond_calls split: sum.splits)


lemma transportConfigText_downstream: "passedDownstream (fst (transportConfigText env t)) = []"
  using transportConfigText_calls [of _ env t] parses_not_builds
  by (intro passedDownstream_none) blast

lemma transportConfigText_no_NewClient: "Call_NewClient text \<notin> set (fst (transportConfigText env t))"
  using transportConfigText_calls [of "Call_NewClient text" env t] by auto

lemma respond_NewClient: "Call_NewClient t \<in> set (fst (respond env text)) \<Longrightarrow> t = text"
  by (auto simp: respond_calls split: sum.splits)

lemma doParseTunnelConfig_NewClient:
  assumes "Call_NewClient text \<in> set (fst (doParseTunnelConfig env input))"
  shows "\<exists>calls. (\<forall>c\<in>set calls. parsesDocument c \<or> reserializes c) \<and>
           doParseTunnelConfig env input = (calls @ fst (respond env text), snd (respond env text))"
proof (cases "transportConfigText env (TrimSpace input)")
  case (Pair calls outcome)
  have pre: "\<forall>c\<in>set calls. parsesDocument c \<or> reserializes c"
    using transportConfigText_calls [of _ env "TrimSpace input"] Pair by auto
  then have none: "Call_NewClient text \<notin> set calls" by auto
  show ?thesis
  proof (cases outcome)
    case (Inl result)
    with Pair have "doParseTunnelConfig env input = (calls, result)"
      by (simp add: doParseTunnelConfig_early)
    with assms none show ?thesis by simp
  next
    case (Inr text')
    with Pair have eq: "doParseTunnelConfig env input =
        (calls @ fst (respond env text'), snd (respond env text'))"
      by (simp add: doParseTunnelConfig_text)
    with assms none have "Call_NewClient text \<in> set (fst (respond env text'))" by simp
    then have "text = text'" by (rule respond_NewClient)
    with eq pre show ?thesis by blast
  qed
qed


lemma transportConfigText_url:
  "HasPrefix t ''ss://'' \<Longrightarrow> transportConfigText env t = ([], Inr t)"
  by (simp add: transportConfigText_def)

lemma transportConfigText_parse_failure:
  assumes "\<not> HasPrefix t ''ss://''" and "yaml_Unmarshal_map env t = Inl err"
  shows "transportConfigText env t =
    ([Call_yaml_Unmarshal_map t],
     Inl \<lparr>Value = [], Error = Some
       \<lparr>Code = InvalidConfig, PlatformError.Message = ''failed to parse: '' @ err,
        PlatformError.Details = None\<rparr>\<rparr>)"
  using assms by (simp add: transportConfigText_def)

lemma transportConfigText_flat:
  assumes "\<not> HasPrefix t ''ss://''" and "yaml_Unmarshal_map env t = Inr yamlValue"
    and "\<not> hasKey yamlValue ''transport''" and "\<not> hasKey yamlValue ''error''"
  shows "transportConfigText env t = ([Call_yaml_Unmarshal_map t], Inr t)"
  using assms by (simp add: transportConfigText_def)

lemma transportConfigText_provider_error:
  assumes "\<not> HasPrefix t ''ss://''" and "yaml_Unmarshal_map env t = Inr yamlValue"
    and "hasKey yamlValue ''transport'' \<or> hasKey yamlValue ''error''"
    and "yaml_Unmarshal_request env t = Inr tunnelConfig"
    and "parseTunnelConfigRequest.Error tunnelConfig = Some e"
  shows "transportConfigText env t =
    ([Call_yaml_Unmarshal_map t, Call_yaml_Unmarshal_request t],
     Inl \<lparr>Value = [], Error = Some
       \<lparr>Code = ProviderError, PlatformError.Message = requestError.Message e,
        PlatformError.Details =
          (if requestError.Details e \<noteq> []
           then Some [''details'' \<mapsto> AnyString (requestError.Details e)] else None)\<rparr>\<rparr>)"
  using assms by (simp add: transportConfigText_def Let_def)

lemma transportConfigText_normalized:
  assumes "\<not> HasPrefix t ''ss://''" and "yaml_Unmarshal_map env t = Inr yamlValue"
    and "hasKey yamlValue ''transport'' \<or> hasKey yamlValue ''error''"
    and "yaml_Unmarshal_request env t = Inr tunnelConfig"
    and "parseTunnelConfigRequest.Error tunnelConfig = None"
  shows "transportConfigText env t =
    ([Call_yaml_Unmarshal_map t, Call_yaml_Unmarshal_request t,
      Call_yaml_Marshal (parseTunnelConfigRequest.Transport tunnelConfig)],
     case yaml_Marshal env (parseTunnelConfigRequest.Transport tunnelConfig) of
       Inl err \<Rightarrow>
         Inl \<lparr>Value = [], Error = Some
           \<lparr>Code = InvalidConfig,
            PlatformError.Message = ''failed to normalize config: '' @ err,
            PlatformError.Details = None\<rparr>\<rparr>
     | Inr transportConfigBytes \<Rightarrow> Inr transportConfigBytes)"
  using assms by (simp add: transportConfigText_def split: sum.splits)



lemmas evaluate =
  doParseTunnelConfig_def transportConfigText_def respond_def hasKey_def Let_def
  TrimSpace_def HasPrefix_def HasSuffix_def spaceRunes_def
  streamFirstHop_def packetFirstHop_def
  sample_inputs sample_collaborators

lemma serialized_none:
  "\<forall>c\<in>set cs. parsesDocument c \<or> reserializes c \<Longrightarrow> serialized cs = []"
  by (induction cs rule: serialized.induct) auto

lemma serialized_append: "serialized (xs @ ys) = serialized xs @ serialized ys"
  by (induction xs rule: serialized.induct) auto

lemma transportConfigText_early_error:
  "transportConfigText env t = (calls, Inl result) \<Longrightarrow> Value result = [] \<and> Error result \<noteq> None"
  by (auto simp: transportConfigText_def Let_def split: if_splits sum.splits option.splits)

section \<open>Properties\<close>

text \<open>
  C1. Whenever the transport-construction collaborator is called and returns a client,
  exactly one response is built, and its \<open>FirstHop\<close> is the stream first hop if the stream
  and packet first hops are equal strings, and the empty string otherwise; so it is one
  of the two first hops or empty.
\<close>

theorem firstHop_reconciled:
  assumes "Call_NewClient text \<in> set (fst (doParseTunnelConfig env input))"
    and "NewClient env text = Inr client"
  shows "map tunnelConfigJson.FirstHop (serialized (fst (doParseTunnelConfig env input))) =
           [if streamFirstHop client = packetFirstHop client then streamFirstHop client else []]
         \<and> set (map tunnelConfigJson.FirstHop (serialized (fst (doParseTunnelConfig env input))))
           \<subseteq> {streamFirstHop client, packetFirstHop client, []}"
proof -
  from assms(1) obtain calls where
    pre: "\<forall>c\<in>set calls. parsesDocument c \<or> reserializes c" and
    run: "doParseTunnelConfig env input = (calls @ fst (respond env text), snd (respond env text))"
    using doParseTunnelConfig_NewClient by blast
  from pre have "serialized calls = []" by (rule serialized_none)
  with run assms(2) show ?thesis
    by (simp add: respond_calls serialized_append)
qed

theorem firstHop_reconciled_witness:
  "Call_NewClient urlConfig \<in> set (fst (doParseTunnelConfig sampleCollaborators urlConfig)) \<and>
   NewClient sampleCollaborators urlConfig = Inr (sampleClient ''1.2.3.4:8080'' ''1.2.3.4:8080'') \<and>
   map tunnelConfigJson.FirstHop (serialized (fst (doParseTunnelConfig sampleCollaborators urlConfig)))
     = [''1.2.3.4:8080''] \<and>
   Call_NewClient ''  host: x\<newline>''
     \<in> set (fst (doParseTunnelConfig sampleCollaborators transportDocument)) \<and>
   NewClient sampleCollaborators ''  host: x\<newline>'' = Inr (sampleClient ''1.2.3.4:8080'' ''5.6.7.8:53'') \<and>
   map tunnelConfigJson.FirstHop
     (serialized (fst (doParseTunnelConfig sampleCollaborators transportDocument))) = [[]]"
proof -
  have c1: "Call_NewClient urlConfig \<in> set (fst (doParseTunnelConfig sampleCollaborators urlConfig))"
    by (simp add: evaluate)
  have n1: "NewClient sampleCollaborators urlConfig = Inr (sampleClient ''1.2.3.4:8080'' ''1.2.3.4:8080'')"
    by (simp add: evaluate)
  have c2: "Call_NewClient ''  host: x\<newline>''
      \<in> set (fst (doParseTunnelConfig sampleCollaborators transportDocument))"
    by (simp add: evaluate)
  have n2: "NewClient sampleCollaborators ''  host: x\<newline>'' = Inr (sampleClient ''1.2.3.4:8080'' ''5.6.7.8:53'')"
    by (simp add: evaluate)
  have m1: "map tunnelConfigJson.FirstHop
      (serialized (fst (doParseTunnelConfig sampleCollaborators urlConfig))) = [''1.2.3.4:8080'']"
    using firstHop_reconciled [OF c1 n1]
    by (simp add: streamFirstHop_def packetFirstHop_def sampleClient_def)
  have m2: "map tunnelConfigJson.FirstHop
      (serialized (fst (doParseTunnelConfig sampleCollaborators transportDocument))) = [[]]"
    using firstHop_reconciled [OF c2 n2]
    by (simp add: streamFirstHop_def packetFirstHop_def sampleClient_def)
  from c1 n1 m1 c2 n2 m2 show ?thesis by blast
qed

text \<open>
  C2. If the whitespace-trimmed input starts with \<open>ss://\<close>, the only text handed to the
  transport-construction collaborator is that trimmed input itself, and no call parses
  a structured document or re-serializes one.
\<close>

theorem legacy_url_passed_unchanged:
  assumes "HasPrefix (TrimSpace input) ''ss://''"
  shows "passedDownstream (fst (doParseTunnelConfig env input)) = [TrimSpace input]
         \<and> filter parsesDocument (fst (doParseTunnelConfig env input)) = []
         \<and> filter reserializes (fst (doParseTunnelConfig env input)) = []"
proof -
  from assms have "transportConfigText env (TrimSpace input) = ([], Inr (TrimSpace input))"
    by (rule transportConfigText_url)
  then have "doParseTunnelConfig env input =
      ([] @ fst (respond env (TrimSpace input)), snd (respond env (TrimSpace input)))"
    by (rule doParseTunnelConfig_text)
  then show ?thesis
    by (simp add: respond_calls split: sum.splits)
qed

theorem legacy_url_passed_unchanged_witness:
  "HasPrefix (TrimSpace (''  '' @ urlConfig @ ''\<newline>'')) ''ss://'' \<and>
   TrimSpace (''  '' @ urlConfig @ ''\<newline>'') = ''ss://example-host-info'' \<and>
   passedDownstream (fst (doParseTunnelConfig sampleCollaborators (''  '' @ urlConfig @ ''\<newline>'')))
     = [''ss://example-host-info''] \<and>
   filter parsesDocument
     (fst (doParseTunnelConfig sampleCollaborators (''  '' @ urlConfig @ ''\<newline>''))) = []"
proof -
  have t: "TrimSpace (''  '' @ urlConfig @ ''\<newline>'') = ''ss://example-host-info''"
    by (simp add: evaluate)
  have h: "HasPrefix (TrimSpace (''  '' @ urlConfig @ ''\<newline>'')) ''ss://''"
    unfolding t by (simp add: HasPrefix_def)
  from legacy_url_passed_unchanged [OF h, of sampleCollaborators]
  have "passedDownstream
      (fst (doParseTunnelConfig sampleCollaborators (''  '' @ urlConfig @ ''\<newline>'')))
        = [''ss://example-host-info''] \<and>
    filter parsesDocument
      (fst (doParseTunnelConfig sampleCollaborators (''  '' @ urlConfig @ ''\<newline>''))) = []"
    unfolding t by blast
  with t h show ?thesis by blast
qed

text \<open>
  C3 as stated fails: for the flat configuration followed by a line feed, which does not
  start with \<open>ss://\<close> and parses to a document with neither a \<open>transport\<close> nor an \<open>error\<close>
  key, the text handed to the transport-construction collaborator is the configuration
  without the line feed, not the input.
\<close>

theorem flat_config_verbatim_counterexample:
  "\<not> HasPrefix (flatConfig @ ''\<newline>'') ''ss://'' \<and>
   yaml_Unmarshal_map sampleCollaborators (flatConfig @ ''\<newline>'')
     = Inr [''host'' \<mapsto> ''x'', ''port'' \<mapsto> ''1''] \<and>
   yaml_Unmarshal_map sampleCollaborators (TrimSpace (flatConfig @ ''\<newline>''))
     = Inr [''host'' \<mapsto> ''x'', ''port'' \<mapsto> ''1''] \<and>
   \<not> hasKey [''host'' \<mapsto> ''x'', ''port'' \<mapsto> ''1''] ''transport'' \<and>
   \<not> hasKey [''host'' \<mapsto> ''x'', ''port'' \<mapsto> ''1''] ''error'' \<and>
   passedDownstream (fst (doParseTunnelConfig sampleCollaborators (flatConfig @ ''\<newline>'')))
     = [flatConfig] \<and>
   flatConfig \<noteq> flatConfig @ ''\<newline>''"
  by (simp add: evaluate)

text \<open>
  C3, amended. If the whitespace-trimmed input does not start with \<open>ss://\<close> and the probe
  parse of it yields a document with neither a \<open>transport\<close> nor an \<open>error\<close> key, the only
  text handed to the transport-construction collaborator is the trimmed input itself;
  nothing is re-serialized, and the only document parse is the probe.
\<close>

theorem flat_config_passed_trimmed:
  assumes "\<not> HasPrefix (TrimSpace input) ''ss://''"
    and "yaml_Unmarshal_map env (TrimSpace input) = Inr yamlValue"
    and "\<not> hasKey yamlValue ''transport''"
    and "\<not> hasKey yamlValue ''error''"
  shows "passedDownstream (fst (doParseTunnelConfig env input)) = [TrimSpace input]
         \<and> filter reserializes (fst (doParseTunnelConfig env input)) = []
         \<and> filter parsesDocument (fst (doParseTunnelConfig env input))
             = [Call_yaml_Unmarshal_map (TrimSpace input)]"
proof -
  from assms have "transportConfigText env (TrimSpace input) =
      ([Call_yaml_Unmarshal_map (TrimSpace input)], Inr (TrimSpace input))"
    by (rule transportConfigText_flat)
  then have "doParseTunnelConfig env input =
      ([Call_yaml_Unmarshal_map (TrimSpace input)] @ fst (respond env (TrimSpace input)),
       snd (respond env (TrimSpace input)))"
    by (rule doParseTunnelConfig_text)
  then show ?thesis
    by (simp add: respond_calls split: sum.splits)
qed

theorem flat_config_passed_trimmed_witness:
  "TrimSpace (flatConfig @ ''\<newline>'') = flatConfig \<and>
   \<not> HasPrefix (TrimSpace (flatConfig @ ''\<newline>'')) ''ss://'' \<and>
   yaml_Unmarshal_map sampleCollaborators (TrimSpace (flatConfig @ ''\<newline>''))
     = Inr [''host'' \<mapsto> ''x'', ''port'' \<mapsto> ''1''] \<and>
   \<not> hasKey [''host'' \<mapsto> ''x'', ''port'' \<mapsto> ''1''] ''transport'' \<and>
   \<not> hasKey [''host'' \<mapsto> ''x'', ''port'' \<mapsto> ''1''] ''error'' \<and>
   passedDownstream (fst (doParseTunnelConfig sampleCollaborators (flatConfig @ ''\<newline>'')))
     = [flatConfig]"
proof -
  have t: "TrimSpace (flatConfig @ ''\<newline>'') = flatConfig"
    by (simp add: evaluate)
  have h1: "\<not> HasPrefix (TrimSpace (flatConfig @ ''\<newline>'')) ''ss://''"
    unfolding t by (simp add: HasPrefix_def flatConfig_def)
  have h2: "yaml_Unmarshal_map sampleCollaborators (TrimSpace (flatConfig @ ''\<newline>''))
     = Inr [''host'' \<mapsto> ''x'', ''port'' \<mapsto> ''1'']"
    unfolding t by (simp add: sample_collaborators sample_inputs)
  have h3: "\<not> hasKey [''host'' \<mapsto> ''x'', ''port'' \<mapsto> ''1''] ''transport''"
    by (simp add: hasKey_def)
  have h4: "\<not> hasKey [''host'' \<mapsto> ''x'', ''port'' \<mapsto> ''1''] ''error''"
    by (simp add: hasKey_def)
  from flat_config_passed_trimmed [OF h1 h2 h3 h4]
  have "passedDownstream (fst (doParseTunnelConfig sampleCollaborators (flatConfig @ ''\<newline>'')))
     = [flatConfig]"
    unfolding t by blast
  with t h1 h2 h3 h4 show ?thesis by blast
qed


text \<open>
  C4. If the trimmed input is a structured document (the probe parse finds a \<open>transport\<close>
  or an \<open>error\<close> key) whose typed projection has a present \<open>Error\<close> object, the result is
  an error envelope with code \<open>ProviderError\<close> and the message of that object; a
  non-empty \<open>Details\<close> string is attached under the key \<open>details\<close>. Whatever the
  \<open>Transport\<close> field holds, nothing is re-serialized and no client is built.
\<close>

theorem provider_error_reported:
  assumes "\<not> HasPrefix (TrimSpace input) ''ss://''"
    and "yaml_Unmarshal_map env (TrimSpace input) = Inr yamlValue"
    and "hasKey yamlValue ''transport'' \<or> hasKey yamlValue ''error''"
    and "yaml_Unmarshal_request env (TrimSpace input) = Inr tunnelConfig"
    and "parseTunnelConfigRequest.Error tunnelConfig = Some e"
  shows "\<exists>platErr.
      snd (doParseTunnelConfig env input) = \<lparr>Value = [], Error = Some platErr\<rparr> \<and>
      Code platErr = ProviderError \<and>
      PlatformError.Message platErr = requestError.Message e \<and>
      (requestError.Details e \<noteq> [] \<longrightarrow>
         (\<exists>details. PlatformError.Details platErr = Some details \<and>
            details ''details'' = Some (AnyString (requestError.Details e)))) \<and>
      filter reserializes (fst (doParseTunnelConfig env input)) = [] \<and>
      filter buildsClient (fst (doParseTunnelConfig env input)) = []"
proof -
  let ?platErr = "\<lparr>Code = ProviderError, PlatformError.Message = requestError.Message e,
      PlatformError.Details =
        (if requestError.Details e \<noteq> []
         then Some [''details'' \<mapsto> AnyString (requestError.Details e)] else None)\<rparr>"
  from assms have "transportConfigText env (TrimSpace input) =
      ([Call_yaml_Unmarshal_map (TrimSpace input), Call_yaml_Unmarshal_request (TrimSpace input)],
       Inl \<lparr>Value = [], Error = Some ?platErr\<rparr>)"
    by (rule transportConfigText_provider_error)
  then have "doParseTunnelConfig env input =
      ([Call_yaml_Unmarshal_map (TrimSpace input), Call_yaml_Unmarshal_request (TrimSpace input)],
       \<lparr>Value = [], Error = Some ?platErr\<rparr>)"
    by (rule doParseTunnelConfig_early)
  then show ?thesis by simp
qed

theorem provider_error_reported_witness:
  "\<not> HasPrefix (TrimSpace providerErrorDocument) ''ss://'' \<and>
   yaml_Unmarshal_map sampleCollaborators (TrimSpace providerErrorDocument)
     = Inr [''transport'' \<mapsto> ''host: x'',
            ''error'' \<mapsto> ''message: quota exceeded, details: daily limit''] \<and>
   hasKey [''transport'' \<mapsto> ''host: x'',
           ''error'' \<mapsto> ''message: quota exceeded, details: daily limit''] ''transport'' \<and>
   yaml_Unmarshal_request sampleCollaborators (TrimSpace providerErrorDocument)
     = Inr \<lparr>parseTunnelConfigRequest.Transport = Some ''  host: x'',
            Error = Some \<lparr>requestError.Message = ''quota exceeded'',
                          requestError.Details = ''daily limit''\<rparr>\<rparr> \<and>
   snd (doParseTunnelConfig sampleCollaborators providerErrorDocument)
     = \<lparr>Value = [], Error = Some
         \<lparr>Code = ProviderError, PlatformError.Message = ''quota exceeded'',
          PlatformError.Details = Some [''details'' \<mapsto> AnyString ''daily limit'']\<rparr>\<rparr> \<and>
   filter buildsClient (fst (doParseTunnelConfig sampleCollaborators providerErrorDocument)) = []"
proof -
  let ?m = "[''transport'' \<mapsto> ''host: x'',
             ''error'' \<mapsto> ''message: quota exceeded, details: daily limit'']"
  let ?e = "\<lparr>requestError.Message = ''quota exceeded'', requestError.Details = ''daily limit''\<rparr>"
  let ?req = "\<lparr>parseTunnelConfigRequest.Transport = Some ''  host: x'', Error = Some ?e\<rparr>"
  have t: "TrimSpace providerErrorDocument = providerErrorDocument"
    by (simp add: evaluate)
  have h1: "\<not> HasPrefix (TrimSpace providerErrorDocument) ''ss://''"
    unfolding t by (simp add: HasPrefix_def providerErrorDocument_def)
  have h2: "yaml_Unmarshal_map sampleCollaborators (TrimSpace providerErrorDocument) = Inr ?m"
    unfolding t by (simp add: sample_collaborators)
  have k: "hasKey ?m ''transport''"
    by (simp add: hasKey_def)
  then have h3: "hasKey ?m ''transport'' \<or> hasKey ?m ''error''" ..
  have h4: "yaml_Unmarshal_request sampleCollaborators (TrimSpace providerErrorDocument) = Inr ?req"
    unfolding t by (simp add: sample_collaborators)
  have h5: "parseTunnelConfigRequest.Error ?req = Some ?e"
    by simp
  from provider_error_reported [OF h1 h2 h3 h4 h5] obtain platErr where
    r: "snd (doParseTunnelConfig sampleCollaborators providerErrorDocument)
          = \<lparr>Value = [], Error = Some platErr\<rparr>" and
    b: "filter buildsClient (fst (doParseTunnelConfig sampleCollaborators providerErrorDocument)) = []"
    by blast
  have "snd (doParseTunnelConfig sampleCollaborators providerErrorDocument)
     = \<lparr>Value = [], Error = Some
         \<lparr>Code = ProviderError, PlatformError.Message = ''quota exceeded'',
          PlatformError.Details = Some [''details'' \<mapsto> AnyString ''daily limit'']\<rparr>\<rparr>"
    using r by (simp add: evaluate)
  with h1 h2 k h4 b show ?thesis by blast
qed


text \<open>
  C5. If the trimmed input does not start with \<open>ss://\<close> and the probe parse of it fails,
  the function returns, after that single call, an error envelope with code
  \<open>InvalidConfig\<close> whose message is \<open>failed to parse: \<close> followed by the parser's
  description of the failure; the code is not \<open>ProviderError\<close>.
\<close>

theorem parse_failure_InvalidConfig:
  assumes "\<not> HasPrefix (TrimSpace input) ''ss://''"
    and "yaml_Unmarshal_map env (TrimSpace input) = Inl err"
  shows "doParseTunnelConfig env input =
      ([Call_yaml_Unmarshal_map (TrimSpace input)],
       \<lparr>Value = [], Error = Some
         \<lparr>Code = InvalidConfig, PlatformError.Message = ''failed to parse: '' @ err,
          PlatformError.Details = None\<rparr>\<rparr>)
    \<and> map_option Code (Error (snd (doParseTunnelConfig env input))) \<noteq> Some ProviderError"
proof -
  from assms have "transportConfigText env (TrimSpace input) =
      ([Call_yaml_Unmarshal_map (TrimSpace input)],
       Inl \<lparr>Value = [], Error = Some
         \<lparr>Code = InvalidConfig, PlatformError.Message = ''failed to parse: '' @ err,
          PlatformError.Details = None\<rparr>\<rparr>)"
    by (rule transportConfigText_parse_failure)
  then have "doParseTunnelConfig env input =
      ([Call_yaml_Unmarshal_map (TrimSpace input)],
       \<lparr>Value = [], Error = Some
         \<lparr>Code = InvalidConfig, PlatformError.Message = ''failed to parse: '' @ err,
          PlatformError.Details = None\<rparr>\<rparr>)"
    by (rule doParseTunnelConfig_early)
  then show ?thesis by simp
qed

theorem parse_failure_InvalidConfig_witness:
  "\<not> HasPrefix (TrimSpace malformedDocument) ''ss://'' \<and>
   yaml_Unmarshal_map sampleCollaborators (TrimSpace malformedDocument)
     = Inl ''[1:1] unexpected end of document'' \<and>
   snd (doParseTunnelConfig sampleCollaborators malformedDocument) =
     \<lparr>Value = [], Error = Some
       \<lparr>Code = InvalidConfig,
        PlatformError.Message = ''failed to parse: [1:1] unexpected end of document'',
        PlatformError.Details = None\<rparr>\<rparr>"
proof -
  have t: "TrimSpace malformedDocument = malformedDocument"
    by (simp add: evaluate)
  have h1: "\<not> HasPrefix (TrimSpace malformedDocument) ''ss://''"
    unfolding t by (simp add: HasPrefix_def malformedDocument_def)
  have h2: "yaml_Unmarshal_map sampleCollaborators (TrimSpace malformedDocument)
      = Inl ''[1:1] unexpected end of document''"
    unfolding t by (simp add: sample_collaborators sample_inputs)
  from parse_failure_InvalidConfig [OF h1 h2]
  have "snd (doParseTunnelConfig sampleCollaborators malformedDocument) =
     \<lparr>Value = [], Error = Some
       \<lparr>Code = InvalidConfig,
        PlatformError.Message = ''failed to parse: [1:1] unexpected end of document'',
        PlatformError.Details = None\<rparr>\<rparr>"
    by simp
  with h1 h2 show ?thesis by blast
qed

text \<open>
  C6 as stated fails. The two documents below hold the same \<open>transport\<close> subtree, the
  mapping of \<open>host\<close> to \<open>x\<close>, once indented by two columns and once by four; neither has
  an \<open>error\<close> key. The node handed to \<^verbatim>\<open>yaml.Marshal\<close> keeps the columns of its tokens
  and is printed at them, so the text handed to the transport-construction collaborator
  follows the indentation of the document: it differs between the two, and is neither
  a canonical form of the subtree nor independent of the formatting around it.
\<close>

theorem transport_text_formatting_counterexample:
  "\<not> HasPrefix (TrimSpace transportDocument) ''ss://'' \<and>
   \<not> HasPrefix (TrimSpace indentedTransportDocument) ''ss://'' \<and>
   yaml_Unmarshal_map sampleCollaborators (TrimSpace transportDocument)
     = Inr [''transport'' \<mapsto> ''host: x''] \<and>
   yaml_Unmarshal_map sampleCollaborators (TrimSpace indentedTransportDocument)
     = Inr [''transport'' \<mapsto> ''host: x''] \<and>
   hasKey [''transport'' \<mapsto> ''host: x''] ''transport'' \<and>
   yaml_Unmarshal_request sampleCollaborators (TrimSpace transportDocument)
     = Inr \<lparr>parseTunnelConfigRequest.Transport = Some ''  host: x'', Error = None\<rparr> \<and>
   yaml_Unmarshal_request sampleCollaborators (TrimSpace indentedTransportDocument)
     = Inr \<lparr>parseTunnelConfigRequest.Transport = Some ''    host: x'', Error = None\<rparr> \<and>
   passedDownstream (fst (doParseTunnelConfig sampleCollaborators transportDocument))
     = [''  host: x\<newline>''] \<and>
   passedDownstream (fst (doParseTunnelConfig sampleCollaborators indentedTransportDocument))
     = [''    host: x\<newline>''] \<and>
   passedDownstream (fst (doParseTunnelConfig sampleCollaborators transportDocument))
     \<noteq> passedDownstream (fst (doParseTunnelConfig sampleCollaborators indentedTransportDocument))"
  by (simp add: evaluate)

text \<open>
  C6, amended. If the trimmed input is a structured document with a top-level \<open>transport\<close>
  key whose typed projection has no \<open>Error\<close> object, \<^verbatim>\<open>yaml.Marshal\<close> is called once, on
  the \<open>Transport\<close> node of that projection. On success the only text handed to the
  transport-construction collaborator is the text that call returned, whatever
  formatting it carries. On failure nothing is handed on and the result is an
  \<open>InvalidConfig\<close> error whose message starts with \<open>failed to normalize config: \<close>, and no
  such message equals a parse-failure message, which starts with \<open>failed to parse: \<close>.
\<close>

theorem transport_subtree_reserialized:
  assumes "\<not> HasPrefix (TrimSpace input) ''ss://''"
    and "yaml_Unmarshal_map env (TrimSpace input) = Inr yamlValue"
    and "hasKey yamlValue ''transport''"
    and "yaml_Unmarshal_request env (TrimSpace input) = Inr tunnelConfig"
    and "parseTunnelConfigRequest.Error tunnelConfig = None"
  shows "filter reserializes (fst (doParseTunnelConfig env input))
           = [Call_yaml_Marshal (parseTunnelConfigRequest.Transport tunnelConfig)] \<and>
    (case yaml_Marshal env (parseTunnelConfigRequest.Transport tunnelConfig) of
      Inr transportConfigBytes \<Rightarrow>
        passedDownstream (fst (doParseTunnelConfig env input)) = [transportConfigBytes]
    | Inl err \<Rightarrow>
        passedDownstream (fst (doParseTunnelConfig env input)) = [] \<and>
        snd (doParseTunnelConfig env input) =
          \<lparr>Value = [], Error = Some
            \<lparr>Code = InvalidConfig,
             PlatformError.Message = ''failed to normalize config: '' @ err,
             PlatformError.Details = None\<rparr>\<rparr> \<and>
        (\<forall>err'. ''failed to normalize config: '' @ err \<noteq> ''failed to parse: '' @ err'))"
proof -
  let ?calls = "[Call_yaml_Unmarshal_map (TrimSpace input),
    Call_yaml_Unmarshal_request (TrimSpace input),
    Call_yaml_Marshal (parseTunnelConfigRequest.Transport tunnelConfig)]"
  from assms(3) have "hasKey yamlValue ''transport'' \<or> hasKey yamlValue ''error''" ..
  with assms have resolved: "transportConfigText env (TrimSpace input) =
     (?calls,
      case yaml_Marshal env (parseTunnelConfigRequest.Transport tunnelConfig) of
        Inl err \<Rightarrow>
          Inl \<lparr>Value = [], Error = Some
            \<lparr>Code = InvalidConfig,
             PlatformError.Message = ''failed to normalize config: '' @ err,
             PlatformError.Details = None\<rparr>\<rparr>
      | Inr transportConfigBytes \<Rightarrow> Inr transportConfigBytes)"
    by (intro transportConfigText_normalized)
  show ?thesis
  proof (cases "yaml_Marshal env (parseTunnelConfigRequest.Transport tunnelConfig)")
    case (Inl err)
    with resolved have "doParseTunnelConfig env input =
        (?calls, \<lparr>Value = [], Error = Some
            \<lparr>Code = InvalidConfig,
             PlatformError.Message = ''failed to normalize config: '' @ err,
             PlatformError.Details = None\<rparr>\<rparr>)"
      by (intro doParseTunnelConfig_early) simp
    with Inl show ?thesis by simp
  next
    case (Inr transportConfigBytes)
    with resolved have "doParseTunnelConfig env input =
        (?calls @ fst (respond env transportConfigBytes), snd (respond env transportConfigBytes))"
      by (intro doParseTunnelConfig_text) simp
    with Inr show ?thesis
      by (simp add: respond_calls split: sum.splits)
  qed
qed

theorem transport_subtree_reserialized_witness:
  "\<not> HasPrefix (TrimSpace transportDocument) ''ss://'' \<and>
   yaml_Unmarshal_map sampleCollaborators (TrimSpace transportDocument)
     = Inr [''transport'' \<mapsto> ''host: x''] \<and>
   hasKey [''transport'' \<mapsto> ''host: x''] ''transport'' \<and>
   yaml_Unmarshal_request sampleCollaborators (TrimSpace transportDocument)
     = Inr \<lparr>parseTunnelConfigRequest.Transport = Some ''  host: x'', Error = None\<rparr> \<and>
   yaml_Marshal sampleCollaborators (Some ''  host: x'') = Inr ''  host: x\<newline>'' \<and>
   filter reserializes (fst (doParseTunnelConfig sampleCollaborators transportDocument))
     = [Call_yaml_Marshal (Some ''  host: x'')] \<and>
   passedDownstream (fst (doParseTunnelConfig sampleCollaborators transportDocument))
     = [''  host: x\<newline>'']"
proof -
  let ?m = "[''transport'' \<mapsto> ''host: x'']"
  let ?req = "\<lparr>parseTunnelConfigRequest.Transport = Some ''  host: x'', Error = None\<rparr>"
  have t: "TrimSpace transportDocument = transportDocument"
    by (simp add: evaluate)
  have h1: "\<not> HasPrefix (TrimSpace transportDocument) ''ss://''"
    unfolding t by (simp add: HasPrefix_def transportDocument_def)
  have h2: "yaml_Unmarshal_map sampleCollaborators (TrimSpace transportDocument) = Inr ?m"
    unfolding t by (simp add: sample_collaborators sample_inputs)
  have h3: "hasKey ?m ''transport''"
    by (simp add: hasKey_def)
  have h4: "yaml_Unmarshal_request sampleCollaborators (TrimSpace transportDocument) = Inr ?req"
    unfolding t by (simp add: sample_collaborators sample_inputs)
  have h5: "parseTunnelConfigRequest.Error ?req = None"
    by simp
  have m: "yaml_Marshal sampleCollaborators (Some ''  host: x'') = Inr ''  host: x\<newline>''"
    by (simp add: sample_collaborators)
  from transport_subtree_reserialized [OF h1 h2 h3 h4 h5]
  have ok: "filter reserializes (fst (doParseTunnelConfig sampleCollaborators transportDocument))
     = [Call_yaml_Marshal (Some ''  host: x'')] \<and>
    passedDownstream (fst (doParseTunnelConfig sampleCollaborators transportDocument))
     = [''  host: x\<newline>'']"
    by (simp add: m)
  from h1 h2 h3 h4 m ok show ?thesis by blast
qed

text \<open>
  C7. If the transport-construction collaborator, called with the text the function
  hands it, returns a platform error, the result is the envelope holding that very
  error and no value.
\<close>

theorem NewClient_error_forwarded:
  assumes "Call_NewClient text \<in> set (fst (doParseTunnelConfig env input))"
    and "NewClient env text = Inl e"
  shows "snd (doParseTunnelConfig env input) = \<lparr>Value = [], Error = Some e\<rparr>"
proof -
  from assms(1) obtain calls where
    "doParseTunnelConfig env input = (calls @ fst (respond env text), snd (respond env text))"
    using doParseTunnelConfig_NewClient by blast
  with assms(2) show ?thesis
    by (simp add: respond_result)
qed

theorem NewClient_error_forwarded_witness:
  "Call_NewClient flatConfig \<in> set (fst (doParseTunnelConfig sampleCollaborators flatConfig)) \<and>
   NewClient sampleCollaborators flatConfig =
     Inl \<lparr>Code = OtherCode ''ERR_ILLEGAL_CONFIG'',
          PlatformError.Message = ''unsupported transport'',
          PlatformError.Details = Some [''field'' \<mapsto> AnyOther ()]\<rparr> \<and>
   snd (doParseTunnelConfig sampleCollaborators flatConfig) =
     \<lparr>Value = [], Error = Some
        \<lparr>Code = OtherCode ''ERR_ILLEGAL_CONFIG'',
         PlatformError.Message = ''unsupported transport'',
         PlatformError.Details = Some [''field'' \<mapsto> AnyOther ()]\<rparr>\<rparr>"
proof -
  have c: "Call_NewClient flatConfig \<in> set (fst (doParseTunnelConfig sampleCollaborators flatConfig))"
    by (simp add: evaluate)
  have n: "NewClient sampleCollaborators flatConfig =
     Inl \<lparr>Code = OtherCode ''ERR_ILLEGAL_CONFIG'',
          PlatformError.Message = ''unsupported transport'',
          PlatformError.Details = Some [''field'' \<mapsto> AnyOther ()]\<rparr>"
    by (simp add: sample_collaborators sample_inputs HasPrefix_def)
  from c n NewClient_error_forwarded [OF c n] show ?thesis by blast
qed

text \<open>
  C8. Provided the JSON encoder never yields the empty text, the result of every call
  has exactly one of \<open>Value\<close> and \<open>Error\<close> populated: either a non-empty \<open>Value\<close> and no
  \<open>Error\<close>, or an \<open>Error\<close> and an empty \<open>Value\<close>.
\<close>

theorem result_exactly_one_populated:
  assumes "\<forall>response. json_Marshal env response \<noteq> Inr []"
  shows "(Value (snd (doParseTunnelConfig env input)) \<noteq> [] \<and>
          Error (snd (doParseTunnelConfig env input)) = None) \<or>
         (Value (snd (doParseTunnelConfig env input)) = [] \<and>
          Error (snd (doParseTunnelConfig env input)) \<noteq> None)"
proof (cases "transportConfigText env (TrimSpace input)")
  case (Pair calls outcome)
  show ?thesis
  proof (cases outcome)
    case (Inl result)
    with Pair have "doParseTunnelConfig env input = (calls, result)"
      by (simp add: doParseTunnelConfig_early)
    moreover from Pair Inl have "Value result = [] \<and> Error result \<noteq> None"
      by (intro transportConfigText_early_error) simp
    ultimately show ?thesis by simp
  next
    case (Inr config)
    with Pair have "doParseTunnelConfig env input =
        (calls @ fst (respond env config), snd (respond env config))"
      by (simp add: doParseTunnelConfig_text)
    then have "snd (doParseTunnelConfig env input) = snd (respond env config)" by simp
    then show ?thesis
      using assms by (auto simp: respond_result split: sum.splits)
  qed
qed

theorem result_exactly_one_populated_witness:
  \<open>(\<forall>response. json_Marshal sampleCollaborators response \<noteq> Inr []) \<and>
   Value (snd (doParseTunnelConfig sampleCollaborators urlConfig))
     = ''{"firstHop":"1.2.3.4:8080","transport":"ss://example-host-info"}'' \<and>
   Error (snd (doParseTunnelConfig sampleCollaborators urlConfig)) = None \<and>
   Value (snd (doParseTunnelConfig sampleCollaborators flatConfig)) = [] \<and>
   Error (snd (doParseTunnelConfig sampleCollaborators flatConfig)) \<noteq> None\<close>
proof -
  have h: "\<forall>response. json_Marshal sampleCollaborators response \<noteq> Inr []"
    by (simp add: sample_collaborators)
  have v: \<open>Value (snd (doParseTunnelConfig sampleCollaborators urlConfig))
     = ''{"firstHop":"1.2.3.4:8080","transport":"ss://example-host-info"}''\<close>
    by (simp add: evaluate)
  have e: "Error (snd (doParseTunnelConfig sampleCollaborators flatConfig)) \<noteq> None"
    by (simp add: evaluate)
  from v result_exactly_one_populated [OF h, of urlConfig]
  have 1: "Error (snd (doParseTunnelConfig sampleCollaborators urlConfig)) = None"
    by auto
  from e result_exactly_one_populated [OF h, of flatConfig]
  have 2: "Value (snd (doParseTunnelConfig sampleCollaborators flatConfig)) = []"
    by auto
  from h v e 1 2 show ?thesis by blast
qed

text \<open>
  C10. On the provider-error path, the error carries no \<open>Details\<close> mapping at all when the
  \<open>Details\<close> string of the error object is empty, and the one-entry mapping from
  \<open>details\<close> to that string when it is not; an entry under \<open>details\<close> exists exactly when
  the string is non-empty.
\<close>

theorem provider_error_details:
  assumes "\<not> HasPrefix (TrimSpace input) ''ss://''"
    and "yaml_Unmarshal_map env (TrimSpace input) = Inr yamlValue"
    and "hasKey yamlValue ''transport'' \<or> hasKey yamlValue ''error''"
    and "yaml_Unmarshal_request env (TrimSpace input) = Inr tunnelConfig"
    and "parseTunnelConfigRequest.Error tunnelConfig = Some e"
  shows "\<exists>platErr.
      Error (snd (doParseTunnelConfig env input)) = Some platErr \<and>
      PlatformError.Details platErr =
        (if requestError.Details e = [] then None
         else Some [''details'' \<mapsto> AnyString (requestError.Details e)]) \<and>
      ((\<exists>details value. PlatformError.Details platErr = Some details \<and>
          details ''details'' = Some value) \<longleftrightarrow> requestError.Details e \<noteq> [])"
proof -
  let ?platErr = "\<lparr>Code = ProviderError, PlatformError.Message = requestError.Message e,
      PlatformError.Details =
        (if requestError.Details e \<noteq> []
         then Some [''details'' \<mapsto> AnyString (requestError.Details e)] else None)\<rparr>"
  from assms have "transportConfigText env (TrimSpace input) =
      ([Call_yaml_Unmarshal_map (TrimSpace input), Call_yaml_Unmarshal_request (TrimSpace input)],
       Inl \<lparr>Value = [], Error = Some ?platErr\<rparr>)"
    by (rule transportConfigText_provider_error)
  then have "doParseTunnelConfig env input =
      ([Call_yaml_Unmarshal_map (TrimSpace input), Call_yaml_Unmarshal_request (TrimSpace input)],
       \<lparr>Value = [], Error = Some ?platErr\<rparr>)"
    by (rule doParseTunnelConfig_early)
  then show ?thesis by simp
qed

theorem provider_error_details_witness:
  "\<not> HasPrefix (TrimSpace bareErrorDocument) ''ss://'' \<and>
   yaml_Unmarshal_map sampleCollaborators (TrimSpace bareErrorDocument)
     = Inr [''error'' \<mapsto> ''message: quota exceeded''] \<and>
   hasKey [''error'' \<mapsto> ''message: quota exceeded''] ''error'' \<and>
   yaml_Unmarshal_request sampleCollaborators (TrimSpace bareErrorDocument)
     = Inr \<lparr>parseTunnelConfigRequest.Transport = None,
            Error = Some \<lparr>requestError.Message = ''quota exceeded'',
                          requestError.Details = []\<rparr>\<rparr> \<and>
   map_option PlatformError.Details
     (Error (snd (doParseTunnelConfig sampleCollaborators bareErrorDocument))) = Some None"
proof -
  let ?m = "[''error'' \<mapsto> ''message: quota exceeded'']"
  let ?e = "\<lparr>requestError.Message = ''quota exceeded'', requestError.Details = []\<rparr>"
  let ?req = "\<lparr>parseTunnelConfigRequest.Transport = None, Error = Some ?e\<rparr>"
  have t: "TrimSpace bareErrorDocument = bareErrorDocument"
    by (simp add: evaluate)
  have h1: "\<not> HasPrefix (TrimSpace bareErrorDocument) ''ss://''"
    unfolding t by (simp add: HasPrefix_def bareErrorDocument_def)
  have h2: "yaml_Unmarshal_map sampleCollaborators (TrimSpace bareErrorDocument) = Inr ?m"
    unfolding t by (simp add: sample_collaborators sample_inputs)
  have k: "hasKey ?m ''error''"
    by (simp add: hasKey_def)
  then have h3: "hasKey ?m ''transport'' \<or> hasKey ?m ''error''" ..
  have h4: "yaml_Unmarshal_request sampleCollaborators (TrimSpace bareErrorDocument) = Inr ?req"
    unfolding t by (simp add: sample_collaborators sample_inputs)
  have h5: "parseTunnelConfigRequest.Error ?req = Some ?e"
    by simp
  from provider_error_details [OF h1 h2 h3 h4 h5]
  have "map_option PlatformError.Details
     (Error (snd (doParseTunnelConfig sampleCollaborators bareErrorDocument))) = Some None"
    by auto
  with h1 h2 k h4 show ?thesis by blast
qed

end
